theory Spec2Isabelle
  imports Main "HOL-Library.Sublist"
begin

section \<open>Data model (types.ts)\<close>

text \<open>
  Strings are lists of characters. Numbers (\<open>priority\<close>, \<open>limit\<close>) are integers: the schema
  declares them as numbers and the GraphQL documents send them as \<open>Int\<close>.
  An optional field (\<open>title?: string\<close>, \<open>string | null\<close>) is an \<open>option\<close>.
\<close>

record LinearUser =
  user_id :: string
  user_name :: string
  user_email :: string
  user_active :: bool

record TicketStatus =
  status_id :: string
  status_name :: string

record LinearTicket =
  ticket_id :: string
  ticket_identifier :: string
  title :: string
  description :: "string option"
  status :: TicketStatus
  priority :: int
  priorityLabel :: string
  assignee :: "LinearUser option"
  url :: string

record PluginConfig =
  apiKey :: "string option"

record TicketUpdateInput =
  tu_title :: "string option"
  tu_description :: "string option"
  tu_stateId :: "string option"
  tu_priority :: "int option"
  tu_assigneeId :: "string option"

record CreateTicketInput =
  ci_title :: string
  ci_teamId :: string
  ci_description :: "string option"
  ci_assigneeId :: "string option"

subsection \<open>Remote payloads\<close>

text \<open>
  The shapes the GraphQL documents of client.ts select: an issue node, a user node, a team
  node and a workflow-state node. An issue node always carries its state; its description
  and its assignee may be \<open>null\<close>.
\<close>

record user_node =
  node_id :: string
  node_name :: string
  node_email :: string
  node_active :: bool

record state_node =
  state_id :: string
  state_name :: string

record issue_node =
  issue_id :: string
  issue_identifier :: string
  issue_title :: string
  issue_description :: "string option"
  issue_url :: string
  issue_priority :: int
  issue_priorityLabel :: string
  issue_state :: state_node
  issue_assignee :: "user_node option"

record team_node =
  team_id :: string
  team_key :: string
  team_name :: string

text \<open>The \<open>IssueFilter\<close> objects the client builds: by identifier, or by team key and state name.\<close>

record issue_filter =
  filter_identifier :: "string option"
  filter_team_key :: "string option"
  filter_state_name :: "string option"

section \<open>The remote service and the effects of a call\<close>

text \<open>
  Everything thrown in this program is a JavaScript \<open>Error\<close>; the handlers read only its
  message.
\<close>

datatype error = Error string

fun message :: "error \<Rightarrow> string" where
  "message (Error m) = m"

text \<open>The documents the client sends, with their variables: the observable outbound calls.\<close>

datatype request =
    CreateIssue CreateTicketInput
  | GetIssue string
  | SearchIssue issue_filter int
  | UpdateIssue string TicketUpdateInput
  | ListIssues issue_filter int
  | GetUsers
  | GetTeams
  | GetStates string

text \<open>
  The remote service is a parameter: one function per GraphQL field the documents query,
  over an arbitrary state \<open>'w\<close> of the outside world. A call either fails (transport or
  GraphQL error, thrown by \<open>client.request\<close>) or returns the payload of the declared shape;
  the issue of a lookup or of a mutation payload may be \<open>null\<close>. The field \<open>issues\<close>
  serves both the search by identifier and the list by team; its second argument is
  \<open>first\<close>.
\<close>

record 'w remote =
  issueCreate :: "CreateTicketInput \<Rightarrow> 'w \<Rightarrow> (error + bool \<times> issue_node option) \<times> 'w"
  issue :: "string \<Rightarrow> 'w \<Rightarrow> (error + issue_node option) \<times> 'w"
  issues :: "issue_filter \<Rightarrow> int \<Rightarrow> 'w \<Rightarrow> (error + issue_node list) \<times> 'w"
  issueUpdate :: "string \<Rightarrow> TicketUpdateInput \<Rightarrow> 'w \<Rightarrow> (error + bool \<times> issue_node option) \<times> 'w"
  users :: "'w \<Rightarrow> (error + user_node list) \<times> 'w"
  teams :: "'w \<Rightarrow> (error + team_node list) \<times> 'w"
  team_states :: "string \<Rightarrow> 'w \<Rightarrow> (error + state_node list) \<times> 'w"

text \<open>
  An asynchronous computation: from the state of the world to its result (a thrown error
  on the left), the new state and the requests it sent, in order.
\<close>

type_synonym ('w, 'a) io = "'w \<Rightarrow> (error + 'a) \<times> 'w \<times> request list"

definition return_io :: "'a \<Rightarrow> ('w, 'a) io" where
  "return_io x = (\<lambda>w. (Inr x, w, []))"

definition throw_io :: "error \<Rightarrow> ('w, 'a) io" where
  "throw_io e = (\<lambda>w. (Inl e, w, []))"

definition of_result :: "error + 'a \<Rightarrow> ('w, 'a) io" where
  "of_result r = (\<lambda>w. (r, w, []))"

definition bind_io :: "('w, 'a) io \<Rightarrow> ('a \<Rightarrow> ('w, 'b) io) \<Rightarrow> ('w, 'b) io" where
  "bind_io m f = (\<lambda>w.
     case m w of
       (Inl e, w', tr) \<Rightarrow> (Inl e, w', tr)
     | (Inr x, w', tr) \<Rightarrow> (case f x w' of (r, w'', tr') \<Rightarrow> (r, w'', tr @ tr')))"

definition catch_io :: "('w, 'a) io \<Rightarrow> (error \<Rightarrow> ('w, 'a) io) \<Rightarrow> ('w, 'a) io" where
  "catch_io m h = (\<lambda>w.
     case m w of
       (Inr x, w', tr) \<Rightarrow> (Inr x, w', tr)
     | (Inl e, w', tr) \<Rightarrow> (case h e w' of (r, w'', tr') \<Rightarrow> (r, w'', tr @ tr')))"

text \<open>What a run returned and which requests it sent.\<close>

definition outcome :: "(error + 'a) \<times> 'w \<times> request list \<Rightarrow> error + 'a" where
  "outcome run = fst run"

definition sent :: "(error + 'a) \<times> 'w \<times> request list \<Rightarrow> request list" where
  "sent run = snd (snd run)"

text \<open>\<open>this.client.request(document, variables)\<close>: one outbound call, recorded.\<close>

definition client_request :: "request \<Rightarrow> ('w \<Rightarrow> (error + 'a) \<times> 'w) \<Rightarrow> ('w, 'a) io" where
  "client_request req endpoint = (\<lambda>w. case endpoint w of (r, w') \<Rightarrow> (r, w', [req]))"

section \<open>Remote Access Layer (client.ts)\<close>

text \<open>
  Reading a property of \<open>null\<close> throws a \<open>TypeError\<close>; its message is the engine's (here
  the one of V8).
\<close>

definition null_read_message :: string where
  "null_read_message = ''Cannot read properties of null (reading 'id')''"

definition mapUser :: "user_node \<Rightarrow> LinearUser" where
  "mapUser u = \<lparr>user_id = node_id u, user_name = node_name u,
     user_email = node_email u, user_active = node_active u\<rparr>"

definition mapIssue :: "issue_node \<Rightarrow> LinearTicket" where
  "mapIssue i =
     \<lparr>ticket_id = issue_id i,
      ticket_identifier = issue_identifier i,
      title = issue_title i,
      description = issue_description i,
      status = \<lparr>status_id = state_id (issue_state i), status_name = state_name (issue_state i)\<rparr>,
      priority = issue_priority i,
      priorityLabel = issue_priorityLabel i,
      assignee = map_option mapUser (issue_assignee i),
      url = issue_url i\<rparr>"

text \<open>\<open>mapIssue\<close> on a payload that may be \<open>null\<close>: reading \<open>issue.id\<close> throws.\<close>

fun mapIssue_nullable :: "issue_node option \<Rightarrow> error + LinearTicket" where
  "mapIssue_nullable None = Inl (Error null_read_message)"
| "mapIssue_nullable (Some i) = Inr (mapIssue i)"

definition createTicket :: "'w remote \<Rightarrow> CreateTicketInput \<Rightarrow> ('w, LinearTicket) io" where
  "createTicket R input =
     bind_io (client_request (CreateIssue input) (issueCreate R input)) (\<lambda>(success, i).
       if \<not> success then throw_io (Error ''Failed to create ticket'')
       else of_result (mapIssue_nullable i))"

text \<open>The filter of the search query and the error thrown when the search finds nothing.\<close>

definition identifier_filter :: "string \<Rightarrow> issue_filter" where
  "identifier_filter ident =
     \<lparr>filter_identifier = Some ident, filter_team_key = None, filter_state_name = None\<rparr>"

definition ticket_not_found :: "string \<Rightarrow> error" where
  "ticket_not_found ident = Error (''Ticket '' @ ident @ '' not found'')"

definition getTicket :: "'w remote \<Rightarrow> string \<Rightarrow> ('w, LinearTicket) io" where
  "getTicket R ident =
     catch_io
       (bind_io (client_request (GetIssue ident) (issue R ident)) (\<lambda>i.
          of_result (mapIssue_nullable i)))
       (\<lambda>_.
         bind_io (client_request (SearchIssue (identifier_filter ident) 1)
                    (issues R (identifier_filter ident) 1)) (\<lambda>nodes.
           case nodes of
             [] \<Rightarrow> throw_io (ticket_not_found ident)
           | n # _ \<Rightarrow> return_io (mapIssue n)))"

definition updateTicket :: "'w remote \<Rightarrow> string \<Rightarrow> TicketUpdateInput \<Rightarrow> ('w, LinearTicket) io" where
  "updateTicket R ident updates =
     bind_io (getTicket R ident) (\<lambda>ticket.
       bind_io (client_request (UpdateIssue (ticket_id ticket) updates)
                  (issueUpdate R (ticket_id ticket) updates)) (\<lambda>(success, i).
         if \<not> success then throw_io (Error ''Failed to update ticket'')
         else of_result (mapIssue_nullable i)))"

definition assignTicket :: "'w remote \<Rightarrow> string \<Rightarrow> string \<Rightarrow> ('w, LinearTicket) io" where
  "assignTicket R ident userId =
     updateTicket R ident
       \<lparr>tu_title = None, tu_description = None, tu_stateId = None, tu_priority = None,
        tu_assigneeId = Some userId\<rparr>"

text \<open>A string is truthy when it is present and not empty.\<close>

fun truthy :: "string option \<Rightarrow> bool" where
  "truthy None = False"
| "truthy (Some s) = (s \<noteq> [])"

text \<open>The filter of the list query: the team key, and the state name when it is truthy.\<close>

definition team_filter :: "string \<Rightarrow> string option \<Rightarrow> issue_filter" where
  "team_filter teamKey st =
     \<lparr>filter_identifier = None, filter_team_key = Some teamKey,
      filter_state_name = (if truthy st then st else None)\<rparr>"

definition listTickets ::
  "'w remote \<Rightarrow> string \<Rightarrow> string option \<Rightarrow> int option \<Rightarrow> ('w, LinearTicket list) io" where
  "listTickets R teamKey st lim =
     (let limit = (case lim of None \<Rightarrow> 50 | Some l \<Rightarrow> l);
          flt = team_filter teamKey st
      in bind_io (client_request (ListIssues flt limit) (issues R flt limit)) (\<lambda>nodes.
           return_io (map mapIssue nodes)))"

definition getUsers :: "'w remote \<Rightarrow> ('w, LinearUser list) io" where
  "getUsers R = bind_io (client_request GetUsers (users R)) (\<lambda>nodes. return_io (map mapUser nodes))"

definition getTeams :: "'w remote \<Rightarrow> ('w, team_node list) io" where
  "getTeams R = client_request GetTeams (teams R)"

definition getWorkflowStates :: "'w remote \<Rightarrow> string \<Rightarrow> ('w, state_node list) io" where
  "getWorkflowStates R teamId = client_request (GetStates teamId) (team_states R teamId)"

section \<open>Intent Dispatch Layer (tools.ts)\<close>

subsection \<open>Strings\<close>

text \<open>\<open>Array.prototype.join\<close>.\<close>

fun join :: "string \<Rightarrow> string list \<Rightarrow> string" where
  "join sep [] = []"
| "join sep [x] = x"
| "join sep (x # y # ys) = x @ sep @ join sep (y # ys)"

text \<open>
  \<open>String.prototype.toLowerCase\<close> is a built-in of the JavaScript runtime, with the case
  mapping of Unicode. It is not redefined here: the handlers that call it take it as their
  first parameter \<open>toLowerCase\<close>, and every property is proved for every such function.
\<close>

definition dquote :: string where
  "dquote = [CHR 0x22]"

definition backtick :: string where
  "backtick = [CHR 0x60]"

definition newline :: string where
  "newline = [CHR 0x0A]"

subsection \<open>Rendering\<close>

datatype content = TextContent string

record ToolResponse =
  content :: "content list"

definition textResponse :: "string \<Rightarrow> ToolResponse" where
  "textResponse t = \<lparr>content = [TextContent t]\<rparr>"

definition formatTicket :: "LinearTicket \<Rightarrow> string" where
  "formatTicket ticket = join newline
     [''**'' @ ticket_identifier ticket @ ''**: '' @ title ticket,
      ''Status: '' @ status_name (status ticket),
      ''Priority: '' @ priorityLabel ticket,
      (case assignee ticket of
         Some a \<Rightarrow> ''Assignee: '' @ user_name a
       | None \<Rightarrow> ''Assignee: Unassigned''),
      (case description ticket of
         Some d \<Rightarrow> (if d \<noteq> [] then newline @ ''Description:'' @ newline @ d else [])
       | None \<Rightarrow> []),
      newline @ ''URL: '' @ url ticket]"

definition formatTicketList :: "LinearTicket list \<Rightarrow> string" where
  "formatTicketList tickets =
     (if length tickets = 0 then ''No tickets found.''
      else join newline
        (map (\<lambda>t. ''- **'' @ ticket_identifier t @ ''**: '' @ title t @ '' ['' @
                    status_name (status t) @ ''] '' @
                    (case assignee t of Some a \<Rightarrow> ''(@'' @ user_name a @ '')'' | None \<Rightarrow> []))
           tickets))"

definition formatUserList :: "LinearUser list \<Rightarrow> string" where
  "formatUserList us =
     (if length us = 0 then ''No users found.''
      else join newline
        (map (\<lambda>u. ''- **'' @ user_name u @ ''** ('' @ user_email u @ '') - ID: '' @ backtick @
                    user_id u @ backtick @ '' '' @ (if user_active u then [] else ''[inactive]''))
           us))"

subsection \<open>Handler parameters\<close>

record create_ticket_params =
  cp_title :: string
  cp_projectKey :: string
  cp_description :: "string option"
  cp_assigneeId :: "string option"

record read_ticket_params =
  rp_identifier :: string

record update_ticket_params =
  up_identifier :: string
  up_title :: "string option"
  up_description :: "string option"
  up_status :: "string option"
  up_priority :: "int option"

record assign_ticket_params =
  ap_identifier :: string
  ap_userId :: string

record list_tickets_params =
  lp_projectKey :: string
  lp_status :: "string option"
  lp_limit :: "int option"

subsection \<open>linear\_create\_ticket\<close>

text \<open>The body of the handler's \<open>try\<close> block, then the handler with its \<open>catch\<close>.\<close>

definition linear_create_ticket_try ::
  "(string \<Rightarrow> string) \<Rightarrow> 'w remote \<Rightarrow> create_ticket_params \<Rightarrow> ('w, ToolResponse) io" where
  "linear_create_ticket_try toLowerCase R params =
     bind_io (getTeams R) (\<lambda>ts.
       case find (\<lambda>t. toLowerCase (team_key t) = toLowerCase (cp_projectKey params)) ts of
         None \<Rightarrow> return_io (textResponse
           (''Team with key '' @ dquote @ cp_projectKey params @ dquote @
            '' not found. Available teams: '' @ join '', '' (map team_key ts)))
       | Some team \<Rightarrow>
           bind_io (createTicket R
                      \<lparr>ci_title = cp_title params, ci_teamId = team_id team,
                       ci_description = cp_description params,
                       ci_assigneeId = cp_assigneeId params\<rparr>) (\<lambda>ticket.
             return_io (textResponse
               (''Created ticket **'' @ ticket_identifier ticket @ ''**'' @ newline @ newline @
                ''URL: '' @ url ticket))))"

definition linear_create_ticket ::
  "(string \<Rightarrow> string) \<Rightarrow> 'w remote \<Rightarrow> create_ticket_params \<Rightarrow> ('w, ToolResponse) io" where
  "linear_create_ticket toLowerCase R params =
     catch_io (linear_create_ticket_try toLowerCase R params) (\<lambda>e.
       return_io (textResponse (''Failed to create ticket: '' @ message e)))"

subsection \<open>linear\_read\_ticket\<close>

definition linear_read_ticket_try ::
  "'w remote \<Rightarrow> read_ticket_params \<Rightarrow> ('w, ToolResponse) io" where
  "linear_read_ticket_try R params =
     bind_io (getTicket R (rp_identifier params)) (\<lambda>ticket.
       return_io (textResponse (formatTicket ticket)))"

definition linear_read_ticket ::
  "'w remote \<Rightarrow> read_ticket_params \<Rightarrow> ('w, ToolResponse) io" where
  "linear_read_ticket R params =
     catch_io (linear_read_ticket_try R params) (\<lambda>e.
       return_io (textResponse (''Failed to get ticket: '' @ message e)))"

subsection \<open>linear\_update\_ticket\<close>

text \<open>
  The \<open>updates\<close> object after the three guarded assignments (title and description when
  truthy, priority when defined).
\<close>

definition initial_updates :: "update_ticket_params \<Rightarrow> TicketUpdateInput" where
  "initial_updates params =
     \<lparr>tu_title = (if truthy (up_title params) then up_title params else None),
      tu_description = (if truthy (up_description params) then up_description params else None),
      tu_stateId = None,
      tu_priority = up_priority params,
      tu_assigneeId = None\<rparr>"

text \<open>The end of the \<open>try\<close> block: the update call and the rendering of its result.\<close>

definition apply_updates ::
  "'w remote \<Rightarrow> update_ticket_params \<Rightarrow> TicketUpdateInput \<Rightarrow> ('w, ToolResponse) io" where
  "apply_updates R params updates =
     bind_io (updateTicket R (up_identifier params) updates) (\<lambda>ticket.
       return_io (textResponse (''Updated ticket:'' @ newline @ newline @ formatTicket ticket)))"

text \<open>\<open>params.identifier.split("-")[0]\<close>: the part of the identifier before its first dash.\<close>

definition team_key_of :: "string \<Rightarrow> string" where
  "team_key_of ident = takeWhile (\<lambda>c. c \<noteq> CHR ''-'') ident"

definition linear_update_ticket_try ::
  "(string \<Rightarrow> string) \<Rightarrow> 'w remote \<Rightarrow> update_ticket_params \<Rightarrow> ('w, ToolResponse) io" where
  "linear_update_ticket_try toLowerCase R params =
     (let updates = initial_updates params in
      case up_status params of
        None \<Rightarrow> apply_updates R params updates
      | Some st \<Rightarrow>
          if st = [] then apply_updates R params updates
          else
            bind_io (getTicket R (up_identifier params)) (\<lambda>_.
              let teamKey = team_key_of (up_identifier params) in
              bind_io (getTeams R) (\<lambda>ts.
                case find (\<lambda>t. toLowerCase (team_key t) = toLowerCase teamKey) ts of
                  None \<Rightarrow> apply_updates R params updates
                | Some team \<Rightarrow>
                    bind_io (getWorkflowStates R (team_id team)) (\<lambda>states.
                      case find (\<lambda>s. toLowerCase (state_name s) = toLowerCase st) states of
                        Some state \<Rightarrow>
                          apply_updates R params (updates\<lparr>tu_stateId := Some (state_id state)\<rparr>)
                      | None \<Rightarrow> return_io (textResponse
                          (''Status '' @ dquote @ st @ dquote @
                           '' not found. Available statuses: '' @
                           join '', '' (map state_name states)))))))"

definition linear_update_ticket ::
  "(string \<Rightarrow> string) \<Rightarrow> 'w remote \<Rightarrow> update_ticket_params \<Rightarrow> ('w, ToolResponse) io" where
  "linear_update_ticket toLowerCase R params =
     catch_io (linear_update_ticket_try toLowerCase R params) (\<lambda>e.
       return_io (textResponse (''Failed to update ticket: '' @ message e)))"

subsection \<open>linear\_assign\_ticket\<close>

definition linear_assign_ticket_try ::
  "'w remote \<Rightarrow> assign_ticket_params \<Rightarrow> ('w, ToolResponse) io" where
  "linear_assign_ticket_try R params =
     bind_io (assignTicket R (ap_identifier params) (ap_userId params)) (\<lambda>ticket.
       return_io (textResponse
         (''Assigned **'' @ ticket_identifier ticket @ ''** to '' @
          (case assignee ticket of
             Some a \<Rightarrow> (if user_name a \<noteq> [] then user_name a else ''user'')
           | None \<Rightarrow> ''user''))))"

definition linear_assign_ticket ::
  "'w remote \<Rightarrow> assign_ticket_params \<Rightarrow> ('w, ToolResponse) io" where
  "linear_assign_ticket R params =
     catch_io (linear_assign_ticket_try R params) (\<lambda>e.
       return_io (textResponse (''Failed to assign ticket: '' @ message e)))"

subsection \<open>linear\_list\_tickets\<close>

text \<open>\<open>params.limit || 50\<close>: an absent limit and the limit 0 are falsy.\<close>

definition limit_or_default :: "int option \<Rightarrow> int" where
  "limit_or_default l = (case l of None \<Rightarrow> 50 | Some n \<Rightarrow> if n = 0 then 50 else n)"

text \<open>The heading of the rendered list, up to the blank line before the tickets.\<close>

definition tickets_heading :: "list_tickets_params \<Rightarrow> string" where
  "tickets_heading params =
     ''**Tickets in '' @ lp_projectKey params @
     (case lp_status params of
        Some st \<Rightarrow> (if st \<noteq> [] then '' ('' @ st @ '')'' else [])
      | None \<Rightarrow> []) @
     '':**'' @ newline @ newline"

definition linear_list_tickets_try ::
  "'w remote \<Rightarrow> list_tickets_params \<Rightarrow> ('w, ToolResponse) io" where
  "linear_list_tickets_try R params =
     bind_io (listTickets R (lp_projectKey params) (lp_status params)
                (Some (limit_or_default (lp_limit params)))) (\<lambda>tickets.
       return_io (textResponse (tickets_heading params @ formatTicketList tickets)))"

definition linear_list_tickets ::
  "'w remote \<Rightarrow> list_tickets_params \<Rightarrow> ('w, ToolResponse) io" where
  "linear_list_tickets R params =
     catch_io (linear_list_tickets_try R params) (\<lambda>e.
       return_io (textResponse (''Failed to list tickets: '' @ message e)))"

subsection \<open>linear\_get\_users\<close>

definition linear_get_users_try :: "'w remote \<Rightarrow> ('w, ToolResponse) io" where
  "linear_get_users_try R =
     bind_io (getUsers R) (\<lambda>us.
       return_io (textResponse (''**Linear Users:**'' @ newline @ newline @ formatUserList us)))"

definition linear_get_users :: "'w remote \<Rightarrow> ('w, ToolResponse) io" where
  "linear_get_users R =
     catch_io (linear_get_users_try R) (\<lambda>e.
       return_io (textResponse (''Failed to get users: '' @ message e)))"

subsection \<open>The six registered operations\<close>

text \<open>
  An invocation by the host: the name of a registered tool with the parameters of its
  schema. \<open>run_tool\<close> is the handler registered under that name, \<open>tool_try\<close> the body of
  its \<open>try\<close> block and \<open>failure_prefix\<close> the phrase of its \<open>catch\<close> block.
\<close>

datatype tool_call =
    CreateTicketCall create_ticket_params
  | ReadTicketCall read_ticket_params
  | UpdateTicketCall update_ticket_params
  | AssignTicketCall assign_ticket_params
  | ListTicketsCall list_tickets_params
  | GetUsersCall

fun tool_name :: "tool_call \<Rightarrow> string" where
  "tool_name (CreateTicketCall _) = ''linear_create_ticket''"
| "tool_name (ReadTicketCall _) = ''linear_read_ticket''"
| "tool_name (UpdateTicketCall _) = ''linear_update_ticket''"
| "tool_name (AssignTicketCall _) = ''linear_assign_ticket''"
| "tool_name (ListTicketsCall _) = ''linear_list_tickets''"
| "tool_name GetUsersCall = ''linear_get_users''"

fun tool_try :: "(string \<Rightarrow> string) \<Rightarrow> 'w remote \<Rightarrow> tool_call \<Rightarrow> ('w, ToolResponse) io" where
  "tool_try toLowerCase R (CreateTicketCall p) = linear_create_ticket_try toLowerCase R p"
| "tool_try toLowerCase R (ReadTicketCall p) = linear_read_ticket_try R p"
| "tool_try toLowerCase R (UpdateTicketCall p) = linear_update_ticket_try toLowerCase R p"
| "tool_try toLowerCase R (AssignTicketCall p) = linear_assign_ticket_try R p"
| "tool_try toLowerCase R (ListTicketsCall p) = linear_list_tickets_try R p"
| "tool_try toLowerCase R GetUsersCall = linear_get_users_try R"

fun run_tool :: "(string \<Rightarrow> string) \<Rightarrow> 'w remote \<Rightarrow> tool_call \<Rightarrow> ('w, ToolResponse) io" where
  "run_tool toLowerCase R (CreateTicketCall p) = linear_create_ticket toLowerCase R p"
| "run_tool toLowerCase R (ReadTicketCall p) = linear_read_ticket R p"
| "run_tool toLowerCase R (UpdateTicketCall p) = linear_update_ticket toLowerCase R p"
| "run_tool toLowerCase R (AssignTicketCall p) = linear_assign_ticket R p"
| "run_tool toLowerCase R (ListTicketsCall p) = linear_list_tickets R p"
| "run_tool toLowerCase R GetUsersCall = linear_get_users R"

fun failure_prefix :: "tool_call \<Rightarrow> string" where
  "failure_prefix (CreateTicketCall _) = ''Failed to create ticket: ''"
| "failure_prefix (ReadTicketCall _) = ''Failed to get ticket: ''"
| "failure_prefix (UpdateTicketCall _) = ''Failed to update ticket: ''"
| "failure_prefix (AssignTicketCall _) = ''Failed to assign ticket: ''"
| "failure_prefix (ListTicketsCall _) = ''Failed to list tickets: ''"
| "failure_prefix GetUsersCall = ''Failed to get users: ''"

text \<open>The bounds the input schemas declare for their numeric fields (TypeBox).\<close>

record number_schema =
  minimum :: int
  maximum :: int

definition priority_schema :: number_schema where
  "priority_schema = \<lparr>minimum = 0, maximum = 4\<rparr>"






section \<open>Plugin entry point (index.ts)\<close>

datatype log_level = Info | Warn

record registration =
  reg_name :: string
  reg_optional :: bool

text \<open>
  The host API: the plugin configuration, an optional logger with the lines written to it,
  and the tools registered so far.
\<close>

record plugin_api =
  api_config :: PluginConfig
  has_logger :: bool
  logged :: "(log_level \<times> string) list"
  registered :: "registration list"

definition logger_write :: "log_level \<Rightarrow> string \<Rightarrow> plugin_api \<Rightarrow> plugin_api" where
  "logger_write lvl msg api =
     (if has_logger api then api\<lparr>logged := logged api @ [(lvl, msg)]\<rparr> else api)"

definition registerTool :: "string \<Rightarrow> bool \<Rightarrow> plugin_api \<Rightarrow> plugin_api" where
  "registerTool nm opt api =
     api\<lparr>registered := registered api @ [\<lparr>reg_name = nm, reg_optional = opt\<rparr>]\<rparr>"

definition registerLinearTools :: "plugin_api \<Rightarrow> plugin_api" where
  "registerLinearTools api =
     registerTool ''linear_get_users'' True
      (registerTool ''linear_list_tickets'' True
        (registerTool ''linear_assign_ticket'' True
          (registerTool ''linear_update_ticket'' True
            (registerTool ''linear_read_ticket'' True
              (registerTool ''linear_create_ticket'' True api)))))"

definition register :: "plugin_api \<Rightarrow> plugin_api" where
  "register api =
     (if \<not> truthy (apiKey (api_config api))
      then logger_write Warn ''Linear plugin: apiKey not configured'' api
      else logger_write Info ''Linear plugin: 6 tools registered''
             (registerLinearTools
               (logger_write Info ''Linear plugin: initializing...'' api)))"

section \<open>Test doubles for the runtime and the remote service\<close>

text \<open>
  On strings of ASCII characters \<open>String.prototype.toLowerCase\<close> maps \<open>A\<close> to \<open>Z\<close> to
  \<open>a\<close> to \<open>z\<close> and keeps every other character. \<open>ascii_lower\<close> is that function; it
  stands for the built-in only where handlers are run on concrete ASCII inputs.
\<close>

definition ascii_lower_char :: "char \<Rightarrow> char" where
  "ascii_lower_char c =
     (case map_of (zip ''ABCDEFGHIJKLMNOPQRSTUVWXYZ'' ''abcdefghijklmnopqrstuvwxyz'') c of
        Some l \<Rightarrow> l
      | None \<Rightarrow> c)"

definition ascii_lower :: "string \<Rightarrow> string" where
  "ascii_lower s = map ascii_lower_char s"

text \<open>
  A small in-memory tracker used to run the handlers on concrete inputs. When \<open>fw_up\<close> is
  false every call fails; when \<open>fw_lookup\<close> is false the single-issue lookup does not accept
  identifiers and only the search does.
\<close>

record fake_world =
  fw_up :: bool
  fw_lookup :: bool
  fw_teams :: "team_node list"
  fw_states :: "state_node list"
  fw_users :: "user_node list"
  fw_issues :: "issue_node list"

definition fake_call :: "(fake_world \<Rightarrow> (error + 'a) \<times> fake_world) \<Rightarrow> fake_world \<Rightarrow> (error + 'a) \<times> fake_world" where
  "fake_call f w = (if fw_up w then f w else (Inl (Error ''network down''), w))"

definition fake_matches :: "issue_filter \<Rightarrow> issue_node \<Rightarrow> bool" where
  "fake_matches flt i =
     ((case filter_identifier flt of None \<Rightarrow> True | Some x \<Rightarrow> issue_identifier i = x) \<and>
      (case filter_team_key flt of None \<Rightarrow> True
       | Some k \<Rightarrow> team_key_of (issue_identifier i) = k) \<and>
      (case filter_state_name flt of None \<Rightarrow> True | Some n \<Rightarrow> state_name (issue_state i) = n))"

definition fake_patch :: "TicketUpdateInput \<Rightarrow> fake_world \<Rightarrow> issue_node \<Rightarrow> issue_node" where
  "fake_patch u w i =
     i\<lparr>issue_title := (case tu_title u of None \<Rightarrow> issue_title i | Some t \<Rightarrow> t),
       issue_description := (case tu_description u of None \<Rightarrow> issue_description i | Some d \<Rightarrow> Some d),
       issue_priority := (case tu_priority u of None \<Rightarrow> issue_priority i | Some p \<Rightarrow> p),
       issue_state := (case tu_stateId u of None \<Rightarrow> issue_state i
                       | Some sid \<Rightarrow> (case find (\<lambda>s. state_id s = sid) (fw_states w) of
                                       None \<Rightarrow> issue_state i | Some s \<Rightarrow> s)),
       issue_assignee := (case tu_assigneeId u of None \<Rightarrow> issue_assignee i
                          | Some uid \<Rightarrow> find (\<lambda>x. node_id x = uid) (fw_users w))\<rparr>"

definition fake_remote :: "fake_world remote" where
  "fake_remote =
     \<lparr>issueCreate = (\<lambda>input. fake_call (\<lambda>w.
        (let i = \<lparr>issue_id = ''id-new'',
                  issue_identifier = ''NEW-1'',
                  issue_title = ci_title input,
                  issue_description = ci_description input,
                  issue_url = ''https://linear.app/issue/NEW-1'',
                  issue_priority = 0,
                  issue_priorityLabel = ''No priority'',
                  issue_state = \<lparr>state_id = ''s-todo'', state_name = ''Todo''\<rparr>,
                  issue_assignee = None\<rparr>
         in (Inr (True, Some i), w\<lparr>fw_issues := fw_issues w @ [i]\<rparr>)))),
      issue = (\<lambda>ident. fake_call (\<lambda>w.
        if \<not> fw_lookup w then (Inl (Error ''Entity not found''), w)
        else (case find (\<lambda>i. issue_identifier i = ident) (fw_issues w) of
                None \<Rightarrow> (Inl (Error ''Entity not found''), w)
              | Some i \<Rightarrow> (Inr (Some i), w)))),
      issues = (\<lambda>flt n. fake_call (\<lambda>w.
        (Inr (take (nat n) (filter (fake_matches flt) (fw_issues w))), w))),
      issueUpdate = (\<lambda>iid u. fake_call (\<lambda>w.
        (case find (\<lambda>i. issue_id i = iid) (fw_issues w) of
           None \<Rightarrow> (Inl (Error ''Entity not found''), w)
         | Some i \<Rightarrow>
             (Inr (True, Some (fake_patch u w i)),
              w\<lparr>fw_issues := map (\<lambda>j. if issue_id j = iid then fake_patch u w j else j)
                                (fw_issues w)\<rparr>)))),
      users = fake_call (\<lambda>w. (Inr (fw_users w), w)),
      teams = fake_call (\<lambda>w. (Inr (fw_teams w), w)),
      team_states = (\<lambda>tid. fake_call (\<lambda>w. (Inr (fw_states w), w)))\<rparr>"

definition eng1 :: issue_node where
  "eng1 =
     \<lparr>issue_id = ''id-1'',
      issue_identifier = ''ENG-1'',
      issue_title = ''Fix login bug'',
      issue_description = Some ''Login fails'',
      issue_url = ''https://linear.app/issue/ENG-1'',
      issue_priority = 2,
      issue_priorityLabel = ''High'',
      issue_state = \<lparr>state_id = ''s-todo'', state_name = ''Todo''\<rparr>,
      issue_assignee = None\<rparr>"

definition world0 :: fake_world where
  "world0 =
     \<lparr>fw_up = True,
      fw_lookup = True,
      fw_teams = [\<lparr>team_id = ''team-eng'', team_key = ''ENG'', team_name = ''Engineering''\<rparr>],
      fw_states = [\<lparr>state_id = ''s-todo'', state_name = ''Todo''\<rparr>,
                   \<lparr>state_id = ''s-done'', state_name = ''Done''\<rparr>],
      fw_users = [\<lparr>node_id = ''u-1'', node_name = ''Sarah'', node_email = ''sarah@example.com'',
                   node_active = True\<rparr>],
      fw_issues = [eng1]\<rparr>"

definition ops7 :: issue_node where
  "ops7 =
     \<lparr>issue_id = ''id-7'',
      issue_identifier = ''OPS-7'',
      issue_title = ''Rotate keys'',
      issue_description = None,
      issue_url = ''https://linear.app/issue/OPS-7'',
      issue_priority = 3,
      issue_priorityLabel = ''Medium'',
      issue_state = \<lparr>state_id = ''s-todo'', state_name = ''Todo''\<rparr>,
      issue_assignee = None\<rparr>"

text \<open>A world with a ticket whose team prefix names no team of the workspace.\<close>

definition world1 :: fake_world where
  "world1 = world0\<lparr>fw_issues := [eng1, ops7]\<rparr>"

section \<open>Vocabulary of the properties\<close>

text \<open>
  The primary lookup of \<open>getTicket\<close> fails when the request throws or the payload is
  \<open>null\<close>; the fallback then sends the lookup and the search.
\<close>

definition primary_fails :: "'w remote \<Rightarrow> string \<Rightarrow> 'w \<Rightarrow> bool" where
  "primary_fails R ident w =
     (case fst (issue R ident w) of Inl _ \<Rightarrow> True | Inr None \<Rightarrow> True | Inr (Some _) \<Rightarrow> False)"

definition search_trace :: "string \<Rightarrow> request list" where
  "search_trace ident = [GetIssue ident, SearchIssue (identifier_filter ident) 1]"

text \<open>The six registrations of \<open>registerLinearTools\<close>, in the order of the source.\<close>

definition linear_tools :: "registration list" where
  "linear_tools =
     map (\<lambda>n. \<lparr>reg_name = n, reg_optional = True\<rparr>)
       [''linear_create_ticket'', ''linear_read_ticket'', ''linear_update_ticket'',
        ''linear_assign_ticket'', ''linear_list_tickets'', ''linear_get_users'']"

section \<open>The specification's reading of \<open>assignTicket\<close>\<close>

text \<open>
  The specification describes \<open>assignTicket\<close> as sugar over \<open>updateTicket\<close> that sets only
  the assignee reference: the empty partial update with the assignee added.
\<close>

definition empty_update :: TicketUpdateInput where
  "empty_update =
     \<lparr>tu_title = None, tu_description = None, tu_stateId = None, tu_priority = None,
      tu_assigneeId = None\<rparr>"

definition assignTicket_spec :: "'w remote \<Rightarrow> string \<Rightarrow> string \<Rightarrow> ('w, LinearTicket) io" where
  "assignTicket_spec R ident userId =
     updateTicket R ident (empty_update\<lparr>tu_assigneeId := Some userId\<rparr>)"

section \<open>Running computations step by step\<close>

lemma bind_io_Inl: "m w = (Inl e, w', tr) \<Longrightarrow> bind_io m f w = (Inl e, w', tr)"
  by (simp add: bind_io_def)

lemma bind_io_Inr:
  "m w = (Inr x, w', tr) \<Longrightarrow> f x w' = (r, w'', tr') \<Longrightarrow> bind_io m f w = (r, w'', tr @ tr')"
  by (simp add: bind_io_def)

lemma catch_io_Inr: "m w = (Inr x, w', tr) \<Longrightarrow> catch_io m h w = (Inr x, w', tr)"
  by (simp add: catch_io_def)

lemma catch_io_Inl:
  "m w = (Inl e, w', tr) \<Longrightarrow> h e w' = (r, w'', tr') \<Longrightarrow> catch_io m h w = (r, w'', tr @ tr')"
  by (simp add: catch_io_def)

lemma client_request_apply:
  "endpoint w = (r, w') \<Longrightarrow> client_request req endpoint w = (r, w', [req])"
  by (simp add: client_request_def)

lemma in_sent_bind:
  assumes "r \<in> set (sent (bind_io m f w))"
  shows "r \<in> set (sent (m w)) \<or> (\<exists>x w'. r \<in> set (sent (f x w')))"
proof (cases "m w")
  case (fields res w' tr)
  show ?thesis
  proof (cases res)
    case (Inl e)
    with fields assms show ?thesis by (simp add: bind_io_def sent_def)
  next
    case (Inr x)
    obtain r2 w2 tr2 where f: "f x w' = (r2, w2, tr2)" by (cases "f x w'") 
    from assms fields Inr f have "r \<in> set tr \<or> r \<in> set tr2"
      by (simp add: bind_io_def sent_def)
    moreover have "sent (m w) = tr" "sent (f x w') = tr2"
      using fields f by (simp_all add: sent_def)
    ultimately show ?thesis by blast
  qed
qed

lemma in_sent_catch:
  assumes "r \<in> set (sent (catch_io m h w))"
  shows "r \<in> set (sent (m w)) \<or> (\<exists>e w'. r \<in> set (sent (h e w')))"
proof (cases "m w")
  case (fields res w' tr)
  show ?thesis
  proof (cases res)
    case (Inr x)
    with fields assms show ?thesis by (simp add: catch_io_def sent_def)
  next
    case (Inl e)
    obtain r2 w2 tr2 where h: "h e w' = (r2, w2, tr2)" by (cases "h e w'") 
    from assms fields Inl h have "r \<in> set tr \<or> r \<in> set tr2"
      by (simp add: catch_io_def sent_def)
    moreover have "sent (m w) = tr" "sent (h e w') = tr2"
      using fields h by (simp_all add: sent_def)
    ultimately show ?thesis by blast
  qed
qed

lemma sent_return [simp]: "sent (return_io x w) = []"
  by (simp add: return_io_def sent_def)

lemma sent_throw [simp]: "sent (throw_io e w) = []"
  by (simp add: throw_io_def sent_def)

lemma sent_of_result [simp]: "sent (of_result r w) = []"
  by (simp add: of_result_def sent_def)

lemma sent_client_request [simp]: "sent (client_request req ep w) = [req]"
  by (simp add: client_request_def sent_def split: prod.splits)

lemma getTicket_sends:
  assumes "r \<in> set (sent (getTicket R ident w))"
  shows "r = GetIssue ident \<or> r = SearchIssue (identifier_filter ident) 1"
  using assms unfolding getTicket_def
  by (auto dest!: in_sent_catch in_sent_bind split: list.splits)

lemma updateTicket_sends:
  assumes "UpdateIssue i u \<in> set (sent (updateTicket R ident updates w))"
  shows "u = updates"
  using assms unfolding updateTicket_def
  by (auto dest!: in_sent_bind dest: getTicket_sends split: if_splits)

lemma apply_updates_sends:
  assumes "UpdateIssue i u \<in> set (sent (apply_updates R p updates w))"
  shows "u = updates"
  using assms unfolding apply_updates_def
  by (auto dest!: in_sent_bind dest: updateTicket_sends)

lemma update_try_sends:
  assumes "UpdateIssue i u \<in> set (sent (linear_update_ticket_try toLowerCase R p w))"
  shows "\<exists>sid. u = (initial_updates p)\<lparr>tu_stateId := sid\<rparr>"
proof -
  have keep: "\<exists>sid. initial_updates p = (initial_updates p)\<lparr>tu_stateId := sid\<rparr>"
    by (rule exI[of _ None]) (simp add: initial_updates_def)
  have set_state: "\<exists>sid. (initial_updates p)\<lparr>tu_stateId := Some s\<rparr> =
      (initial_updates p)\<lparr>tu_stateId := sid\<rparr>" for s
    by (rule exI[of _ "Some s"]) (rule refl)
  from assms show ?thesis
    unfolding linear_update_ticket_try_def Let_def getTeams_def getWorkflowStates_def
    by (auto dest!: in_sent_bind apply_updates_sends dest: getTicket_sends
        split: option.splits if_splits simp: keep set_state)
qed

lemma update_sends:
  assumes "UpdateIssue i u \<in> set (sent (linear_update_ticket toLowerCase R p w))"
  shows "\<exists>sid. u = (initial_updates p)\<lparr>tu_stateId := sid\<rparr>"
  using assms unfolding linear_update_ticket_def
  by (auto dest!: in_sent_catch dest: update_try_sends)

lemma sent_bind_silent:
  assumes "\<And>x w'. sent (f x w') = []"
  shows "sent (bind_io m f w) = sent (m w)"
proof (cases "m w")
  case (fields res w' tr)
  show ?thesis
  proof (cases res)
    case (Inl e)
    with fields show ?thesis by (simp add: bind_io_def sent_def)
  next
    case (Inr x)
    obtain r2 w2 tr2 where f: "f x w' = (r2, w2, tr2)" by (cases "f x w'")
    with assms [of x w'] have "tr2 = []" by (simp add: sent_def)
    with fields Inr f show ?thesis by (simp add: bind_io_def sent_def)
  qed
qed

lemma sent_catch_return: "sent (catch_io m (\<lambda>e. return_io (g e)) w) = sent (m w)"
  by (auto simp add: catch_io_def sent_def return_io_def split: prod.splits sum.splits)

text \<open>When the lookup inside updateTicket succeeds, the mutation is the next request.\<close>

lemma updateTicket_sent:
  assumes "getTicket R ident w = (Inr t, w1, tr)"
  shows "sent (updateTicket R ident u w) = tr @ [UpdateIssue (ticket_id t) u]"
  using assms
  by (simp add: updateTicket_def bind_io_def client_request_def sent_def throw_io_def
      of_result_def split: prod.splits sum.splits)

lemma apply_updates_sent:
  assumes "getTicket R (up_identifier p) w = (Inr t, w1, tr)"
  shows "sent (apply_updates R p u w) = tr @ [UpdateIssue (ticket_id t) u]"
  unfolding apply_updates_def using updateTicket_sent [OF assms]
  by (simp add: sent_bind_silent)

lemma handled_updates_sent:
  assumes "getTicket R (up_identifier p) w = (Inr t, w1, tr)"
  shows "sent (catch_io (apply_updates R p u)
           (\<lambda>e. return_io (textResponse (pre @ message e))) w) =
         tr @ [UpdateIssue (ticket_id t) u]"
  using apply_updates_sent [OF assms] by (simp add: sent_catch_return)

text \<open>The handler up to the point where the team of the ticket has been looked up.\<close>

lemma update_after_teams:
  assumes "up_status p = Some st" and "st \<noteq> []"
    and "getTicket R (up_identifier p) w = (Inr t0, w1, tr1)"
    and "teams R w1 = (Inr ts, w2)"
  shows "linear_update_ticket toLowerCase R p w =
     (case catch_io
        (case find (\<lambda>t. toLowerCase (team_key t) = toLowerCase (team_key_of (up_identifier p))) ts of
           None \<Rightarrow> apply_updates R p (initial_updates p)
         | Some team \<Rightarrow>
             bind_io (getWorkflowStates R (team_id team)) (\<lambda>states.
               case find (\<lambda>s. toLowerCase (state_name s) = toLowerCase st) states of
                 Some state \<Rightarrow>
                   apply_updates R p ((initial_updates p)\<lparr>tu_stateId := Some (state_id state)\<rparr>)
               | None \<Rightarrow> return_io (textResponse
                   (''Status '' @ dquote @ st @ dquote @ '' not found. Available statuses: '' @
                    join '', '' (map state_name states)))))
        (\<lambda>e. return_io (textResponse (''Failed to update ticket: '' @ message e))) w2 of
        (r, w3, tr3) \<Rightarrow> (r, w3, tr1 @ [GetTeams] @ tr3))"
  using assms
  by (simp add: linear_update_ticket_def linear_update_ticket_try_def Let_def getTeams_def
      catch_io_def bind_io_def client_request_def split: prod.splits sum.splits)

lemma update_without_status:
  assumes "up_status p = None"
  shows "linear_update_ticket toLowerCase R p w =
     catch_io (apply_updates R p (initial_updates p))
       (\<lambda>e. return_io (textResponse (''Failed to update ticket: '' @ message e))) w"
  using assms by (simp add: linear_update_ticket_def linear_update_ticket_try_def)

lemma sublist_join:
  assumes "x \<in> set xs"
  shows "sublist x (join sep xs)"
  using assms
proof (induction sep xs rule: join.induct)
  case (1 sep)
  then show ?case by simp
next
  case (2 sep y)
  then show ?case by simp
next
  case (3 sep y z zs)
  show ?case
  proof (cases "x = y")
    case True
    then show ?thesis by simp
  next
    case False
    with 3 have "sublist x (join sep (z # zs))" by simp
    then obtain ps ss where "join sep (z # zs) = ps @ x @ ss" by (auto simp add: sublist_def)
    then have "join sep (y # z # zs) = (y @ sep @ ps) @ x @ ss" by simp
    then show ?thesis unfolding sublist_def by blast
  qed
qed

lemma createTicket_sent: "sent (createTicket R input w) = [CreateIssue input]"
  unfolding createTicket_def
  by (subst sent_bind_silent) (auto split: prod.splits)

lemma create_after_teams:
  assumes "teams R w = (Inr ts, w1)"
  shows "linear_create_ticket toLowerCase R p w =
     (case catch_io
        (case find (\<lambda>t. toLowerCase (team_key t) = toLowerCase (cp_projectKey p)) ts of
           None \<Rightarrow> return_io (textResponse
             (''Team with key '' @ dquote @ cp_projectKey p @ dquote @
              '' not found. Available teams: '' @ join '', '' (map team_key ts)))
         | Some team \<Rightarrow>
             bind_io (createTicket R
                        \<lparr>ci_title = cp_title p, ci_teamId = team_id team,
                         ci_description = cp_description p,
                         ci_assigneeId = cp_assigneeId p\<rparr>) (\<lambda>ticket.
               return_io (textResponse
                 (''Created ticket **'' @ ticket_identifier ticket @ ''**'' @ newline @ newline @
                  ''URL: '' @ url ticket))))
        (\<lambda>e. return_io (textResponse (''Failed to create ticket: '' @ message e))) w1 of
        (r, w2, tr) \<Rightarrow> (r, w2, [GetTeams] @ tr))"
  using assms
  by (simp add: linear_create_ticket_def linear_create_ticket_try_def getTeams_def
      catch_io_def bind_io_def client_request_def split: prod.splits sum.splits)

lemma create_team_miss:
  assumes "teams R w = (Inr ts, w1)"
    and "\<forall>t\<in>set ts. toLowerCase (team_key t) \<noteq> toLowerCase (cp_projectKey p)"
  shows "linear_create_ticket toLowerCase R p w =
     (Inr (textResponse
        (''Team with key '' @ dquote @ cp_projectKey p @ dquote @
         '' not found. Available teams: '' @ join '', '' (map team_key ts))),
      w1, [GetTeams])"
proof -
  from assms(2)
  have "find (\<lambda>t. toLowerCase (team_key t) = toLowerCase (cp_projectKey p)) ts = None"
    by (simp add: find_None_iff)
  then show ?thesis
    unfolding create_after_teams [OF assms(1)]
    by (simp add: catch_io_def return_io_def)
qed

lemma listTickets_run:
  "listTickets R teamKey st (Some lim) w =
     (case issues R (team_filter teamKey st) lim w of
        (Inl e, w1) \<Rightarrow> (Inl e, w1, [ListIssues (team_filter teamKey st) lim])
      | (Inr nodes, w1) \<Rightarrow> (Inr (map mapIssue nodes), w1, [ListIssues (team_filter teamKey st) lim]))"
  by (simp add: listTickets_def Let_def bind_io_def client_request_def return_io_def
      split: prod.splits sum.splits)

lemma list_tickets_sent:
  "sent (linear_list_tickets R p w) =
     [ListIssues (team_filter (lp_projectKey p) (lp_status p)) (limit_or_default (lp_limit p))]"
proof -
  have "sent (listTickets R k st (Some lim) w) = [ListIssues (team_filter k st) lim]" for k st lim
    by (simp add: listTickets_run sent_def split: prod.splits sum.splits)
  then show ?thesis
    unfolding linear_list_tickets_def sent_catch_return linear_list_tickets_try_def
    by (simp add: sent_bind_silent)
qed

lemma list_tickets_rendered:
  assumes "issues R (team_filter (lp_projectKey p) (lp_status p)) (limit_or_default (lp_limit p)) w =
      (Inr nodes, w1)"
  shows "linear_list_tickets R p w =
     (Inr (textResponse (tickets_heading p @ formatTicketList (map mapIssue nodes))), w1,
      [ListIssues (team_filter (lp_projectKey p) (lp_status p)) (limit_or_default (lp_limit p))])"
  using assms
  by (simp add: linear_list_tickets_def linear_list_tickets_try_def listTickets_run
      catch_io_def bind_io_def return_io_def)

lemma run_tool_catch:
  "run_tool toLowerCase R call =
     catch_io (tool_try toLowerCase R call) (\<lambda>e. return_io (textResponse (failure_prefix call @ message e)))"
  by (cases call)
    (simp_all add: linear_create_ticket_def linear_read_ticket_def linear_update_ticket_def
      linear_assign_ticket_def linear_list_tickets_def linear_get_users_def)



subsection \<open>The test double on concrete inputs\<close>

lemma fake_getTicket_ops7:
  "getTicket fake_remote ''OPS-7'' world1 = (Inr (mapIssue ops7), world1, [GetIssue ''OPS-7''])"
  by (simp add: getTicket_def catch_io_def bind_io_def client_request_def of_result_def
      fake_remote_def fake_call_def world1_def world0_def eng1_def ops7_def)

lemma fake_getTicket_eng1:
  "getTicket fake_remote ''ENG-1'' world0 = (Inr (mapIssue eng1), world0, [GetIssue ''ENG-1''])"
  by (simp add: getTicket_def catch_io_def bind_io_def client_request_def of_result_def
      fake_remote_def fake_call_def world0_def eng1_def)

lemma fake_teams: "fw_up w \<Longrightarrow> teams fake_remote w = (Inr (fw_teams w), w)"
  by (simp add: fake_remote_def fake_call_def)

lemma fake_team_states: "fw_up w \<Longrightarrow> team_states fake_remote tid w = (Inr (fw_states w), w)"
  by (simp add: fake_remote_def fake_call_def)

lemma ascii_lower_simps [simp]:
  "ascii_lower [] = []"
  "ascii_lower (c # cs) = ascii_lower_char c # ascii_lower cs"
  by (simp_all add: ascii_lower_def)

lemma fake_update_empty_title:
  "sent (linear_update_ticket ascii_lower fake_remote
      \<lparr>up_identifier = ''ENG-1'', up_title = Some [], up_description = Some [],
       up_status = None, up_priority = Some 0\<rparr> world0) =
     [GetIssue ''ENG-1'',
      UpdateIssue ''id-1''
        \<lparr>tu_title = None, tu_description = None, tu_stateId = None,
         tu_priority = Some 0, tu_assigneeId = None\<rparr>]"
  by code_simp

lemma fake_list_xyz:
  "issues fake_remote (team_filter ''XYZ'' None) 50 world0 = (Inr [], world0)"
  by (simp add: fake_remote_def fake_call_def world0_def eng1_def team_filter_def
      fake_matches_def team_key_of_def)


lemma fake_read_down:
  "outcome (tool_try ascii_lower fake_remote (ReadTicketCall \<lparr>rp_identifier = ''ENG-1''\<rparr>)
      (world0\<lparr>fw_up := False\<rparr>)) = Inl (Error ''network down'')"
  by code_simp

lemma fake_users_ok:
  "outcome (tool_try ascii_lower fake_remote GetUsersCall world0) =
     Inr (textResponse
       (''**Linear Users:**'' @ newline @ newline @
        ''- **Sarah** (sarah@example.com) - ID: '' @ backtick @ ''u-1'' @ backtick @ '' ''))"
  by code_simp


section \<open>Properties\<close>

text \<open>
  C1, as the code has it. Let update-ticket be invoked with a non-empty status, and let the
  first lookup of the ticket and the fetch of the teams succeed. When no team matches the
  prefix of the identifier, the status is skipped and, once the ticket is looked up again,
  the update mutation is sent with the other supplied fields (title and description when
  truthy, priority when defined) and no state. When a team matches but none of its workflow
  states matches the status, the handler returns the message listing the available
  statuses and sends no update mutation: the other fields are not applied.
\<close>

theorem update_status_resolution:
  assumes "up_status p = Some st" and "st \<noteq> []"
    and "getTicket R (up_identifier p) w = (Inr t0, w1, tr1)"
    and "teams R w1 = (Inr ts, w2)"
  shows
    "(find (\<lambda>t. toLowerCase (team_key t) = toLowerCase (team_key_of (up_identifier p))) ts = None \<longrightarrow>
        (\<forall>t w3 tr3. getTicket R (up_identifier p) w2 = (Inr t, w3, tr3) \<longrightarrow>
           sent (linear_update_ticket toLowerCase R p w) =
             tr1 @ [GetTeams] @ tr3 @
             [UpdateIssue (ticket_id t)
                \<lparr>tu_title = (if truthy (up_title p) then up_title p else None),
                 tu_description = (if truthy (up_description p) then up_description p else None),
                 tu_stateId = None,
                 tu_priority = up_priority p,
                 tu_assigneeId = None\<rparr>])) \<and>
     (\<forall>team states w3.
        find (\<lambda>t. toLowerCase (team_key t) = toLowerCase (team_key_of (up_identifier p))) ts = Some team \<and>
        team_states R (team_id team) w2 = (Inr states, w3) \<and>
        find (\<lambda>s. toLowerCase (state_name s) = toLowerCase st) states = None \<longrightarrow>
        linear_update_ticket toLowerCase R p w =
          (Inr (textResponse
             (''Status '' @ dquote @ st @ dquote @ '' not found. Available statuses: '' @
              join '', '' (map state_name states))),
           w3, tr1 @ [GetTeams, GetStates (team_id team)]) \<and>
        (\<forall>i u. UpdateIssue i u \<notin> set (sent (linear_update_ticket toLowerCase R p w))))"
proof (intro conjI allI impI)
  fix t w3 tr3
  assume none: "find (\<lambda>t. toLowerCase (team_key t) = toLowerCase (team_key_of (up_identifier p))) ts = None"
    and again: "getTicket R (up_identifier p) w2 = (Inr t, w3, tr3)"
  let ?run = "catch_io (apply_updates R p (initial_updates p))
      (\<lambda>e. return_io (textResponse (''Failed to update ticket: '' @ message e))) w2"
  have "linear_update_ticket toLowerCase R p w = (case ?run of (r, w3, tr3) \<Rightarrow> (r, w3, tr1 @ [GetTeams] @ tr3))"
    using update_after_teams [OF assms] none by simp
  then have "sent (linear_update_ticket toLowerCase R p w) = tr1 @ [GetTeams] @ sent ?run"
    by (simp add: sent_def split: prod.splits)
  also have "sent ?run = tr3 @ [UpdateIssue (ticket_id t) (initial_updates p)]"
    by (rule handled_updates_sent [OF again])
  finally show "sent (linear_update_ticket toLowerCase R p w) =
             tr1 @ [GetTeams] @ tr3 @
             [UpdateIssue (ticket_id t)
                \<lparr>tu_title = (if truthy (up_title p) then up_title p else None),
                 tu_description = (if truthy (up_description p) then up_description p else None),
                 tu_stateId = None,
                 tu_priority = up_priority p,
                 tu_assigneeId = None\<rparr>]"
    by (simp add: initial_updates_def)
next
  fix team states w3
  assume miss: "find (\<lambda>t. toLowerCase (team_key t) = toLowerCase (team_key_of (up_identifier p))) ts = Some team \<and>
        team_states R (team_id team) w2 = (Inr states, w3) \<and>
        find (\<lambda>s. toLowerCase (state_name s) = toLowerCase st) states = None"
  then show run: "linear_update_ticket toLowerCase R p w =
          (Inr (textResponse
             (''Status '' @ dquote @ st @ dquote @ '' not found. Available statuses: '' @
              join '', '' (map state_name states))),
           w3, tr1 @ [GetTeams, GetStates (team_id team)])"
    unfolding update_after_teams [OF assms]
    by (simp add: getWorkflowStates_def catch_io_def bind_io_def client_request_def return_io_def)
  fix i u
  have "set tr1 \<subseteq> {GetIssue (up_identifier p), SearchIssue (identifier_filter (up_identifier p)) 1}"
    using getTicket_sends [of _ R "up_identifier p" w] assms(3) by (auto simp add: sent_def)
  then show "UpdateIssue i u \<notin> set (sent (linear_update_ticket toLowerCase R p w))"
    unfolding run by (auto simp add: sent_def)
qed


theorem update_status_resolution_witness:
  "sent (linear_update_ticket ascii_lower fake_remote
      \<lparr>up_identifier = ''OPS-7'', up_title = Some ''Rotate API keys'', up_description = None,
       up_status = Some ''Done'', up_priority = Some 1\<rparr> world1) =
     [GetIssue ''OPS-7'', GetTeams, GetIssue ''OPS-7'',
      UpdateIssue ''id-7''
        \<lparr>tu_title = Some ''Rotate API keys'', tu_description = None, tu_stateId = None,
         tu_priority = Some 1, tu_assigneeId = None\<rparr>] \<and>
   linear_update_ticket ascii_lower fake_remote
      \<lparr>up_identifier = ''ENG-1'', up_title = Some ''New title'', up_description = None,
       up_status = Some ''Nonexistent'', up_priority = None\<rparr> world0 =
     (Inr (textResponse
        (''Status '' @ dquote @ ''Nonexistent'' @ dquote @
         '' not found. Available statuses: Todo, Done'')),
      world0, [GetIssue ''ENG-1'', GetTeams, GetStates ''team-eng''])"
proof -
  let ?pa = "\<lparr>up_identifier = ''OPS-7'', up_title = Some ''Rotate API keys'', up_description = None,
       up_status = Some ''Done'', up_priority = Some 1\<rparr>"
  let ?pb = "\<lparr>up_identifier = ''ENG-1'', up_title = Some ''New title'', up_description = None,
       up_status = Some ''Nonexistent'', up_priority = None\<rparr>"
  have up0: "fw_up world0" and up1: "fw_up world1"
    by (simp_all add: world0_def world1_def)
  have a: "find (\<lambda>t. ascii_lower (team_key t) = ascii_lower (team_key_of (up_identifier ?pa)))
             (fw_teams world1) = None"
    by (simp add: world1_def world0_def team_key_of_def ascii_lower_char_def)
  have b: "find (\<lambda>t. ascii_lower (team_key t) = ascii_lower (team_key_of (up_identifier ?pb)))
             (fw_teams world0) =
           Some \<lparr>team_id = ''team-eng'', team_key = ''ENG'', team_name = ''Engineering''\<rparr>"
    by (simp add: world0_def team_key_of_def ascii_lower_char_def)
  have c: "find (\<lambda>s. ascii_lower (state_name s) = ascii_lower ''Nonexistent'') (fw_states world0) = None"
    by (simp add: world0_def ascii_lower_char_def)
  have pa: "up_status ?pa = Some ''Done''" "''Done'' \<noteq> []"
       "getTicket fake_remote (up_identifier ?pa) world1 =
          (Inr (mapIssue ops7), world1, [GetIssue ''OPS-7''])"
    by (simp_all add: fake_getTicket_ops7)
  have pb: "up_status ?pb = Some ''Nonexistent''" "''Nonexistent'' \<noteq> []"
       "getTicket fake_remote (up_identifier ?pb) world0 =
          (Inr (mapIssue eng1), world0, [GetIssue ''ENG-1''])"
    by (simp_all add: fake_getTicket_eng1)
  from update_status_resolution [OF pa fake_teams [OF up1]] a pa(3)
  have "sent (linear_update_ticket ascii_lower fake_remote ?pa world1) =
     [GetIssue ''OPS-7''] @ [GetTeams] @ [GetIssue ''OPS-7''] @
     [UpdateIssue (ticket_id (mapIssue ops7))
        \<lparr>tu_title = (if truthy (up_title ?pa) then up_title ?pa else None),
         tu_description = (if truthy (up_description ?pa) then up_description ?pa else None),
         tu_stateId = None, tu_priority = up_priority ?pa, tu_assigneeId = None\<rparr>]"
    by blast
  moreover
  from update_status_resolution [OF pb fake_teams [OF up0]] b c fake_team_states [OF up0]
  have "linear_update_ticket ascii_lower fake_remote ?pb world0 =
          (Inr (textResponse
             (''Status '' @ dquote @ ''Nonexistent'' @ dquote @ '' not found. Available statuses: '' @
              join '', '' (map state_name (fw_states world0)))),
           world0, [GetIssue ''ENG-1''] @ [GetTeams, GetStates ''team-eng''])"
    by (metis team_node.select_convs(1))
  ultimately show ?thesis
    by (simp add: mapIssue_def ops7_def world0_def)
qed

text \<open>
  C1 as stated fails: with a status that matches no workflow state of the resolved team,
  the supplied title is not applied. The handler answers with the list of statuses after
  three read requests, and the world is unchanged.
\<close>

theorem update_unknown_status_counterexample:
  "linear_update_ticket ascii_lower fake_remote
      \<lparr>up_identifier = ''ENG-1'', up_title = Some ''New title'', up_description = None,
       up_status = Some ''Nonexistent'', up_priority = None\<rparr> world0 =
     (Inr (textResponse
        (''Status '' @ dquote @ ''Nonexistent'' @ dquote @
         '' not found. Available statuses: Todo, Done'')),
      world0, [GetIssue ''ENG-1'', GetTeams, GetStates ''team-eng''])"
  by code_simp

text \<open>
  C2, as the code has it. list-tickets resolves no team: from every state it sends exactly
  one request, the list query whose filter holds the team key exactly as supplied (and the
  status when truthy), so it has no side effect beyond that read. It renders exactly the
  tickets the query returned; when the query returns none, as for a key that names no team,
  the response is the heading followed by \<open>No tickets found.\<close>, and no team key is listed.
\<close>

theorem list_tickets_single_query:
  "sent (linear_list_tickets R p w) =
     [ListIssues
        \<lparr>filter_identifier = None, filter_team_key = Some (lp_projectKey p),
         filter_state_name = (if truthy (lp_status p) then lp_status p else None)\<rparr>
        (limit_or_default (lp_limit p))] \<and>
   (\<forall>nodes w1.
      issues R (team_filter (lp_projectKey p) (lp_status p)) (limit_or_default (lp_limit p)) w =
        (Inr nodes, w1) \<longrightarrow>
      outcome (linear_list_tickets R p w) =
        Inr (textResponse (tickets_heading p @ formatTicketList (map mapIssue nodes))) \<and>
      (nodes = [] \<longrightarrow>
         outcome (linear_list_tickets R p w) =
           Inr (textResponse (tickets_heading p @ ''No tickets found.''))))"
proof (intro conjI allI impI)
  show "sent (linear_list_tickets R p w) =
     [ListIssues
        \<lparr>filter_identifier = None, filter_team_key = Some (lp_projectKey p),
         filter_state_name = (if truthy (lp_status p) then lp_status p else None)\<rparr>
        (limit_or_default (lp_limit p))]"
    using list_tickets_sent [of R p w] by (simp add: team_filter_def)
next
  fix nodes w1
  assume run: "issues R (team_filter (lp_projectKey p) (lp_status p)) (limit_or_default (lp_limit p)) w =
        (Inr nodes, w1)"
  show rendered: "outcome (linear_list_tickets R p w) =
        Inr (textResponse (tickets_heading p @ formatTicketList (map mapIssue nodes)))"
    by (simp add: list_tickets_rendered [OF run] outcome_def)
  assume "nodes = []"
  with rendered show "outcome (linear_list_tickets R p w) =
           Inr (textResponse (tickets_heading p @ ''No tickets found.''))"
    by (simp add: formatTicketList_def)
qed

theorem list_tickets_single_query_witness:
  "issues fake_remote (team_filter ''XYZ'' None) 50 world0 = (Inr [], world0) \<and>
   outcome (linear_list_tickets fake_remote
      \<lparr>lp_projectKey = ''XYZ'', lp_status = None, lp_limit = None\<rparr> world0) =
     Inr (textResponse (''**Tickets in XYZ:**'' @ newline @ newline @ ''No tickets found.''))"
proof -
  let ?p = "\<lparr>lp_projectKey = ''XYZ'', lp_status = None, lp_limit = None\<rparr>"
  have run: "issues fake_remote (team_filter (lp_projectKey ?p) (lp_status ?p))
      (limit_or_default (lp_limit ?p)) world0 = (Inr [], world0)"
    by (simp add: fake_list_xyz limit_or_default_def)
  from list_tickets_single_query [of fake_remote ?p world0] run
  have "outcome (linear_list_tickets fake_remote ?p world0) =
      Inr (textResponse (tickets_heading ?p @ ''No tickets found.''))"
    by blast
  then show ?thesis by (simp add: fake_list_xyz tickets_heading_def)
qed

text \<open>
  C2 as stated fails: for the key XYZ, which matches no team of a workspace whose only
  team has the key ENG, the rendered response does not contain ENG.
\<close>

theorem list_unknown_team_counterexample:
  "linear_list_tickets fake_remote
      \<lparr>lp_projectKey = ''XYZ'', lp_status = None, lp_limit = None\<rparr> world0 =
     (Inr (textResponse (''**Tickets in XYZ:**'' @ newline @ newline @ ''No tickets found.'')),
      world0, [ListIssues (team_filter ''XYZ'' None) 50]) \<and>
   map team_key (fw_teams world0) = [''ENG''] \<and>
   \<not> sublist ''ENG'' (''**Tickets in XYZ:**'' @ newline @ newline @ ''No tickets found.'')"
  by code_simp

text \<open>
  C3, as the code has it. \<open>getTicket\<close> first sends the single-issue lookup; when that
  returns an issue, its normalized ticket is the result and nothing else is sent. When the
  lookup fails (the request throws or the payload is \<open>null\<close>), the search by identifier
  (\<open>first: 1\<close>) is sent: an error of the search request itself is passed on unchanged, an
  empty result fails with \<open>Ticket <identifier> not found\<close>, and otherwise the normalized
  first node is the result.
\<close>

theorem getTicket_lookup_paths:
  "(\<forall>i w1. issue R ident w = (Inr (Some i), w1) \<longrightarrow>
      getTicket R ident w = (Inr (mapIssue i), w1, [GetIssue ident])) \<and>
   (primary_fails R ident w \<longrightarrow>
      getTicket R ident w =
        (case issues R (identifier_filter ident) 1 (snd (issue R ident w)) of
           (Inl e, w2) \<Rightarrow> (Inl e, w2, search_trace ident)
         | (Inr [], w2) \<Rightarrow> (Inl (ticket_not_found ident), w2, search_trace ident)
         | (Inr (n # ns), w2) \<Rightarrow> (Inr (mapIssue n), w2, search_trace ident)))"
proof (intro conjI allI impI)
  fix i w1
  assume "issue R ident w = (Inr (Some i), w1)"
  then show "getTicket R ident w = (Inr (mapIssue i), w1, [GetIssue ident])"
    by (simp add: getTicket_def catch_io_def bind_io_def client_request_def of_result_def)
next
  assume "primary_fails R ident w"
  then show "getTicket R ident w =
        (case issues R (identifier_filter ident) 1 (snd (issue R ident w)) of
           (Inl e, w2) \<Rightarrow> (Inl e, w2, search_trace ident)
         | (Inr [], w2) \<Rightarrow> (Inl (ticket_not_found ident), w2, search_trace ident)
         | (Inr (n # ns), w2) \<Rightarrow> (Inr (mapIssue n), w2, search_trace ident))"
    by (auto simp add: primary_fails_def search_trace_def getTicket_def catch_io_def bind_io_def
        client_request_def of_result_def throw_io_def return_io_def
        split: prod.splits sum.splits option.splits list.splits)
qed

theorem getTicket_lookup_paths_witness:
  "getTicket fake_remote ''ENG-1'' world0 = (Inr (mapIssue eng1), world0, [GetIssue ''ENG-1'']) \<and>
   getTicket fake_remote ''ENG-1'' (world0\<lparr>fw_lookup := False\<rparr>) =
     (Inr (mapIssue eng1), world0\<lparr>fw_lookup := False\<rparr>, search_trace ''ENG-1'') \<and>
   getTicket fake_remote ''ENG-9'' world0 =
     (Inl (ticket_not_found ''ENG-9''), world0, search_trace ''ENG-9'') \<and>
   getTicket fake_remote ''ENG-1'' (world0\<lparr>fw_up := False\<rparr>) =
     (Inl (Error ''network down''), world0\<lparr>fw_up := False\<rparr>, search_trace ''ENG-1'')"
proof -
  have a: "issue fake_remote ''ENG-1'' world0 = (Inr (Some eng1), world0)"
    by (simp add: fake_remote_def fake_call_def world0_def eng1_def)
  have b: "primary_fails fake_remote ''ENG-1'' (world0\<lparr>fw_lookup := False\<rparr>)"
    by (simp add: primary_fails_def fake_remote_def fake_call_def world0_def)
  have c: "primary_fails fake_remote ''ENG-9'' world0"
    by (simp add: primary_fails_def fake_remote_def fake_call_def world0_def eng1_def)
  have d: "primary_fails fake_remote ''ENG-1'' (world0\<lparr>fw_up := False\<rparr>)"
    by (simp add: primary_fails_def fake_remote_def fake_call_def world0_def)
  show ?thesis
    using getTicket_lookup_paths [of fake_remote "''ENG-1''" world0] a
      getTicket_lookup_paths [of fake_remote "''ENG-1''" "world0\<lparr>fw_lookup := False\<rparr>"] b
      getTicket_lookup_paths [of fake_remote "''ENG-9''" world0] c
      getTicket_lookup_paths [of fake_remote "''ENG-1''" "world0\<lparr>fw_up := False\<rparr>"] d
    by (simp add: fake_remote_def fake_call_def world0_def eng1_def identifier_filter_def
        fake_matches_def)
qed

text \<open>
  C3 as stated fails: when the lookup and the search request both fail, \<open>getTicket\<close>
  neither returns a ticket nor fails with the not-found error; it fails with the error of
  the search request.
\<close>

theorem getTicket_search_failure_counterexample:
  "outcome (getTicket fake_remote ''ENG-1'' (world0\<lparr>fw_up := False\<rparr>)) = Inl (Error ''network down'') \<and>
   Error ''network down'' \<noteq> ticket_not_found ''ENG-1''"
  by (simp add: outcome_def getTicket_def catch_io_def bind_io_def client_request_def
      of_result_def throw_io_def return_io_def fake_remote_def fake_call_def world0_def
      ticket_not_found_def)

text \<open>
  C4, as the code has it. No handler ever throws: every invocation of every registered
  operation returns a textual response. When the body of the handler throws an error, the
  text is the fixed phrase of the operation followed by the message of the error; when the
  body returns, the handler returns what the body returned. A resolution miss is not an
  error: for an unknown team key create-ticket returns the message that lists the team
  keys, without the phrase of the operation.
\<close>

theorem handlers_never_throw:
  "(\<exists>resp. outcome (run_tool toLowerCase R call w) = Inr resp) \<and>
   (\<forall>e. outcome (tool_try toLowerCase R call w) = Inl e \<longrightarrow>
      outcome (run_tool toLowerCase R call w) = Inr (textResponse (failure_prefix call @ message e))) \<and>
   (\<forall>resp. outcome (tool_try toLowerCase R call w) = Inr resp \<longrightarrow>
      run_tool toLowerCase R call w = tool_try toLowerCase R call w) \<and>
   (\<forall>p ts w1.
      call = CreateTicketCall p \<and> teams R w = (Inr ts, w1) \<and>
      (\<forall>t\<in>set ts. toLowerCase (team_key t) \<noteq> toLowerCase (cp_projectKey p)) \<longrightarrow>
      outcome (run_tool toLowerCase R call w) =
        Inr (textResponse
          (''Team with key '' @ dquote @ cp_projectKey p @ dquote @
           '' not found. Available teams: '' @ join '', '' (map team_key ts))))"
proof (intro conjI allI impI)
  show "\<exists>resp. outcome (run_tool toLowerCase R call w) = Inr resp"
    unfolding run_tool_catch
    by (auto simp add: outcome_def catch_io_def return_io_def split: prod.splits sum.splits)
next
  fix e
  assume "outcome (tool_try toLowerCase R call w) = Inl e"
  then show "outcome (run_tool toLowerCase R call w) = Inr (textResponse (failure_prefix call @ message e))"
    unfolding run_tool_catch
    by (auto simp add: outcome_def catch_io_def return_io_def split: prod.splits sum.splits)
next
  fix resp
  assume "outcome (tool_try toLowerCase R call w) = Inr resp"
  then show "run_tool toLowerCase R call w = tool_try toLowerCase R call w"
    unfolding run_tool_catch
    by (auto simp add: outcome_def catch_io_def split: prod.splits sum.splits)
next
  fix p ts w1
  assume "call = CreateTicketCall p \<and> teams R w = (Inr ts, w1) \<and>
      (\<forall>t\<in>set ts. toLowerCase (team_key t) \<noteq> toLowerCase (cp_projectKey p))"
  then show "outcome (run_tool toLowerCase R call w) =
        Inr (textResponse
          (''Team with key '' @ dquote @ cp_projectKey p @ dquote @
           '' not found. Available teams: '' @ join '', '' (map team_key ts)))"
    using create_team_miss [where R = R and w = w and ts = ts and ?w1.0 = w1 and p = p and toLowerCase = toLowerCase] by (simp add: outcome_def)
qed

theorem handlers_never_throw_witness:
  "outcome (tool_try ascii_lower fake_remote (ReadTicketCall \<lparr>rp_identifier = ''ENG-1''\<rparr>)
      (world0\<lparr>fw_up := False\<rparr>)) = Inl (Error ''network down'') \<and>
   outcome (run_tool ascii_lower fake_remote (ReadTicketCall \<lparr>rp_identifier = ''ENG-1''\<rparr>)
      (world0\<lparr>fw_up := False\<rparr>)) =
     Inr (textResponse ''Failed to get ticket: network down'') \<and>
   run_tool ascii_lower fake_remote GetUsersCall world0 = tool_try ascii_lower fake_remote GetUsersCall world0 \<and>
   outcome (run_tool ascii_lower fake_remote
      (CreateTicketCall \<lparr>cp_title = ''T'', cp_projectKey = ''XYZ'', cp_description = None,
         cp_assigneeId = None\<rparr>) world0) =
     Inr (textResponse
       (''Team with key '' @ dquote @ ''XYZ'' @ dquote @ '' not found. Available teams: ENG''))"
proof -
  let ?read = "ReadTicketCall \<lparr>rp_identifier = ''ENG-1''\<rparr>"
  let ?p = "\<lparr>cp_title = ''T'', cp_projectKey = ''XYZ'', cp_description = None,
         cp_assigneeId = None\<rparr>"
  have up: "fw_up world0" by (simp add: world0_def)
  have ts: "fw_teams world0 =
      [\<lparr>team_id = ''team-eng'', team_key = ''ENG'', team_name = ''Engineering''\<rparr>]"
    by (simp add: world0_def)
  have miss: "CreateTicketCall ?p = CreateTicketCall ?p \<and>
      teams fake_remote world0 = (Inr (fw_teams world0), world0) \<and>
      (\<forall>t\<in>set (fw_teams world0). ascii_lower (team_key t) \<noteq> ascii_lower (cp_projectKey ?p))"
    by (simp add: fake_teams [OF up] ts ascii_lower_char_def)
  from handlers_never_throw [of ascii_lower fake_remote ?read "world0\<lparr>fw_up := False\<rparr>"] fake_read_down
  have "outcome (run_tool ascii_lower fake_remote ?read (world0\<lparr>fw_up := False\<rparr>)) =
      Inr (textResponse (failure_prefix ?read @ message (Error ''network down'')))"
    by blast
  moreover
  from handlers_never_throw [of ascii_lower fake_remote GetUsersCall world0] fake_users_ok
  have "run_tool ascii_lower fake_remote GetUsersCall world0 = tool_try ascii_lower fake_remote GetUsersCall world0"
    by blast
  moreover
  from handlers_never_throw [of ascii_lower fake_remote "CreateTicketCall ?p" world0] miss
  have "outcome (run_tool ascii_lower fake_remote (CreateTicketCall ?p) world0) =
      Inr (textResponse
        (''Team with key '' @ dquote @ cp_projectKey ?p @ dquote @
         '' not found. Available teams: '' @ join '', '' (map team_key (fw_teams world0))))"
    by blast
  ultimately show ?thesis using fake_read_down by (simp add: ts)
qed

text \<open>
  C4 as stated fails: the response to a resolution miss does not start with the phrase that
  identifies the failed operation.
\<close>

theorem resolution_miss_prefix_counterexample:
  "outcome (run_tool ascii_lower fake_remote
      (CreateTicketCall \<lparr>cp_title = ''T'', cp_projectKey = ''XYZ'', cp_description = None,
         cp_assigneeId = None\<rparr>) world0) =
     Inr (textResponse
       (''Team with key '' @ dquote @ ''XYZ'' @ dquote @ '' not found. Available teams: ENG'')) \<and>
   \<not> prefix
      (failure_prefix (CreateTicketCall \<lparr>cp_title = ''T'', cp_projectKey = ''XYZ'',
         cp_description = None, cp_assigneeId = None\<rparr>))
      (''Team with key '' @ dquote @ ''XYZ'' @ dquote @ '' not found. Available teams: ENG'')"
  by code_simp

text \<open>
  C5. For every update-ticket invocation that supplies only the priority, every update
  mutation the handler sends carries a value for the priority and for nothing else (title,
  description, state and assignee are absent from its variables), and once the ticket is
  looked up that mutation is sent, on the ticket's internal id.
\<close>

theorem priority_only_update:
  assumes "up_title p = None" and "up_description p = None" and "up_status p = None"
    and "up_priority p = Some n"
  shows
    "(\<forall>i u. UpdateIssue i u \<in> set (sent (linear_update_ticket toLowerCase R p w)) \<longrightarrow>
        u = \<lparr>tu_title = None, tu_description = None, tu_stateId = None,
              tu_priority = Some n, tu_assigneeId = None\<rparr>) \<and>
     (\<forall>t w1 tr. getTicket R (up_identifier p) w = (Inr t, w1, tr) \<longrightarrow>
        sent (linear_update_ticket toLowerCase R p w) =
          tr @ [UpdateIssue (ticket_id t)
                  \<lparr>tu_title = None, tu_description = None, tu_stateId = None,
                   tu_priority = Some n, tu_assigneeId = None\<rparr>])"
proof -
  have only: "initial_updates p =
      \<lparr>tu_title = None, tu_description = None, tu_stateId = None,
       tu_priority = Some n, tu_assigneeId = None\<rparr>"
    using assms by (simp add: initial_updates_def)
  show ?thesis
  proof (intro conjI allI impI)
    fix i u
    assume "UpdateIssue i u \<in> set (sent (linear_update_ticket toLowerCase R p w))"
    then have "UpdateIssue i u \<in> set (sent (apply_updates R p (initial_updates p) w))"
      unfolding update_without_status [OF assms(3)] by (simp add: sent_catch_return)
    then have "u = initial_updates p" by (rule apply_updates_sends)
    with only show "u = \<lparr>tu_title = None, tu_description = None, tu_stateId = None,
              tu_priority = Some n, tu_assigneeId = None\<rparr>" by simp
  next
    fix t w1 tr
    assume g: "getTicket R (up_identifier p) w = (Inr t, w1, tr)"
    have "sent (linear_update_ticket toLowerCase R p w) = tr @ [UpdateIssue (ticket_id t) (initial_updates p)]"
      unfolding update_without_status [OF assms(3)] by (rule handled_updates_sent [OF g])
    then show "sent (linear_update_ticket toLowerCase R p w) =
          tr @ [UpdateIssue (ticket_id t)
                  \<lparr>tu_title = None, tu_description = None, tu_stateId = None,
                   tu_priority = Some n, tu_assigneeId = None\<rparr>]"
      using only by simp
  qed
qed

theorem priority_only_update_witness:
  "sent (linear_update_ticket ascii_lower fake_remote
      \<lparr>up_identifier = ''ENG-1'', up_title = None, up_description = None, up_status = None,
       up_priority = Some 1\<rparr> world0) =
     [GetIssue ''ENG-1'',
      UpdateIssue ''id-1''
        \<lparr>tu_title = None, tu_description = None, tu_stateId = None,
         tu_priority = Some 1, tu_assigneeId = None\<rparr>] \<and>
   fw_issues (fst (snd (linear_update_ticket ascii_lower fake_remote
      \<lparr>up_identifier = ''ENG-1'', up_title = None, up_description = None, up_status = None,
       up_priority = Some 1\<rparr> world0))) = [eng1\<lparr>issue_priority := 1\<rparr>]"
proof -
  let ?p = "\<lparr>up_identifier = ''ENG-1'', up_title = None, up_description = None, up_status = None,
       up_priority = Some (1::int)\<rparr>"
  have p: "up_title ?p = None" "up_description ?p = None" "up_status ?p = None"
    "up_priority ?p = Some 1"
    by simp_all
  have g: "getTicket fake_remote (up_identifier ?p) world0 =
      (Inr (mapIssue eng1), world0, [GetIssue ''ENG-1''])"
    by (simp add: fake_getTicket_eng1)
  have after: "fw_issues (fst (snd (linear_update_ticket ascii_lower fake_remote ?p world0))) =
      [eng1\<lparr>issue_priority := 1\<rparr>]"
    by code_simp
  from priority_only_update [OF p, of ascii_lower fake_remote world0] g
  have "sent (linear_update_ticket ascii_lower fake_remote ?p world0) =
     [GetIssue ''ENG-1''] @ [UpdateIssue (ticket_id (mapIssue eng1))
        \<lparr>tu_title = None, tu_description = None, tu_stateId = None,
         tu_priority = Some 1, tu_assigneeId = None\<rparr>]"
    by blast
  with after show ?thesis by (simp add: mapIssue_def eng1_def)
qed



text \<open>
  C7. Let create-ticket be invoked and the fetch of the teams succeed. The supplied key is
  compared with the key of each team after \<open>toLowerCase\<close> on both, whatever the case
  mapping of the runtime is. When no team matches, the
  handler returns (it does not throw) the message that names the key and lists the keys of
  all teams, each of which occurs in the list, and the only request sent is the fetch of
  the teams: no create mutation. When some team matches, the create mutation is sent with
  the id of a matching team.
\<close>

theorem create_ticket_team_resolution:
  assumes "teams R w = (Inr ts, w1)"
  shows
    "((\<forall>t\<in>set ts. toLowerCase (team_key t) \<noteq> toLowerCase (cp_projectKey p)) \<longrightarrow>
        linear_create_ticket toLowerCase R p w =
          (Inr (textResponse
             (''Team with key '' @ dquote @ cp_projectKey p @ dquote @
              '' not found. Available teams: '' @ join '', '' (map team_key ts))),
           w1, [GetTeams]) \<and>
        (\<forall>t\<in>set ts. sublist (team_key t) (join '', '' (map team_key ts)))) \<and>
     ((\<exists>t\<in>set ts. toLowerCase (team_key t) = toLowerCase (cp_projectKey p)) \<longrightarrow>
        (\<exists>team\<in>set ts.
           toLowerCase (team_key team) = toLowerCase (cp_projectKey p) \<and>
           sent (linear_create_ticket toLowerCase R p w) =
             [GetTeams,
              CreateIssue \<lparr>ci_title = cp_title p, ci_teamId = team_id team,
                           ci_description = cp_description p,
                           ci_assigneeId = cp_assigneeId p\<rparr>]))"
proof (intro conjI impI)
  assume "\<forall>t\<in>set ts. toLowerCase (team_key t) \<noteq> toLowerCase (cp_projectKey p)"
  then show "linear_create_ticket toLowerCase R p w =
          (Inr (textResponse
             (''Team with key '' @ dquote @ cp_projectKey p @ dquote @
              '' not found. Available teams: '' @ join '', '' (map team_key ts))),
           w1, [GetTeams])"
    by (rule create_team_miss [OF assms])
next
  show "\<forall>t\<in>set ts. sublist (team_key t) (join '', '' (map team_key ts))"
    by (simp add: sublist_join)
next
  assume "\<exists>t\<in>set ts. toLowerCase (team_key t) = toLowerCase (cp_projectKey p)"
  then obtain team where
    found: "find (\<lambda>t. toLowerCase (team_key t) = toLowerCase (cp_projectKey p)) ts = Some team"
    by (cases "find (\<lambda>t. toLowerCase (team_key t) = toLowerCase (cp_projectKey p)) ts")
      (auto simp add: find_None_iff)
  then have mem: "team \<in> set ts"
    and key: "toLowerCase (team_key team) = toLowerCase (cp_projectKey p)"
    by (auto simp add: find_Some_iff)
  let ?input = "\<lparr>ci_title = cp_title p, ci_teamId = team_id team,
      ci_description = cp_description p, ci_assigneeId = cp_assigneeId p\<rparr>"
  let ?run = "catch_io
      (bind_io (createTicket R ?input) (\<lambda>ticket.
         return_io (textResponse
           (''Created ticket **'' @ ticket_identifier ticket @ ''**'' @ newline @ newline @
            ''URL: '' @ url ticket))))
      (\<lambda>e. return_io (textResponse (''Failed to create ticket: '' @ message e))) w1"
  have "linear_create_ticket toLowerCase R p w = (case ?run of (r, w2, tr) \<Rightarrow> (r, w2, [GetTeams] @ tr))"
    using create_after_teams [OF assms, where p = p and toLowerCase = toLowerCase] found by simp
  then have "sent (linear_create_ticket toLowerCase R p w) = [GetTeams] @ sent ?run"
    by (simp add: sent_def split: prod.splits)
  also have "sent ?run = [CreateIssue ?input]"
    by (simp add: sent_catch_return sent_bind_silent createTicket_sent)
  finally have "sent (linear_create_ticket toLowerCase R p w) = [GetTeams, CreateIssue ?input]" by simp
  with mem key show "\<exists>team\<in>set ts.
           toLowerCase (team_key team) = toLowerCase (cp_projectKey p) \<and>
           sent (linear_create_ticket toLowerCase R p w) =
             [GetTeams,
              CreateIssue \<lparr>ci_title = cp_title p, ci_teamId = team_id team,
                           ci_description = cp_description p,
                           ci_assigneeId = cp_assigneeId p\<rparr>]"
    by blast
qed

theorem create_ticket_team_resolution_witness:
  "linear_create_ticket ascii_lower fake_remote
      \<lparr>cp_title = ''Fix login bug'', cp_projectKey = ''XYZ'', cp_description = None,
       cp_assigneeId = None\<rparr> world0 =
     (Inr (textResponse
        (''Team with key '' @ dquote @ ''XYZ'' @ dquote @ '' not found. Available teams: ENG'')),
      world0, [GetTeams]) \<and>
   sublist ''ENG'' (join '', '' (map team_key (fw_teams world0))) \<and>
   sent (linear_create_ticket ascii_lower fake_remote
      \<lparr>cp_title = ''Fix login bug'', cp_projectKey = ''eng'', cp_description = None,
       cp_assigneeId = None\<rparr> world0) =
     [GetTeams,
      CreateIssue \<lparr>ci_title = ''Fix login bug'', ci_teamId = ''team-eng'',
                   ci_description = None, ci_assigneeId = None\<rparr>]"
proof -
  let ?miss = "\<lparr>cp_title = ''Fix login bug'', cp_projectKey = ''XYZ'', cp_description = None,
       cp_assigneeId = None\<rparr>"
  let ?hit = "\<lparr>cp_title = ''Fix login bug'', cp_projectKey = ''eng'', cp_description = None,
       cp_assigneeId = None\<rparr>"
  have up: "fw_up world0" by (simp add: world0_def)
  have ts: "fw_teams world0 =
      [\<lparr>team_id = ''team-eng'', team_key = ''ENG'', team_name = ''Engineering''\<rparr>]"
    by (simp add: world0_def)
  have no: "\<forall>t\<in>set (fw_teams world0). ascii_lower (team_key t) \<noteq> ascii_lower (cp_projectKey ?miss)"
    by (simp add: ts ascii_lower_char_def)
  have yes: "\<exists>t\<in>set (fw_teams world0). ascii_lower (team_key t) = ascii_lower (cp_projectKey ?hit)"
    by (simp add: ts ascii_lower_char_def)
  from create_ticket_team_resolution [OF fake_teams [OF up], where p = ?miss and toLowerCase = ascii_lower] no
  have "linear_create_ticket ascii_lower fake_remote ?miss world0 =
          (Inr (textResponse
             (''Team with key '' @ dquote @ cp_projectKey ?miss @ dquote @
              '' not found. Available teams: '' @ join '', '' (map team_key (fw_teams world0)))),
           world0, [GetTeams])"
    and "\<forall>t\<in>set (fw_teams world0). sublist (team_key t) (join '', '' (map team_key (fw_teams world0)))"
    by blast+
  moreover
  from create_ticket_team_resolution [OF fake_teams [OF up], where p = ?hit and toLowerCase = ascii_lower] yes
  have "sent (linear_create_ticket ascii_lower fake_remote ?hit world0) =
     [GetTeams,
      CreateIssue \<lparr>ci_title = ''Fix login bug'', ci_teamId = ''team-eng'',
                   ci_description = None, ci_assigneeId = None\<rparr>]"
    by (simp add: ts)
  ultimately show ?thesis by (simp add: ts)
qed

text \<open>
  C8. For every identifier and user id, \<open>assignTicket\<close> is the same computation as
  \<open>updateTicket\<close> on the partial update whose only field is the assignee: same result, same
  effect on the remote service and same requests, from every state of the world. So every
  update mutation it sends sets the assignee and nothing else, and once the ticket is
  looked up that mutation is sent.
\<close>

theorem assignTicket_is_updateTicket:
  "assignTicket R ident userId = assignTicket_spec R ident userId \<and>
   (\<forall>i u. UpdateIssue i u \<in> set (sent (assignTicket R ident userId w)) \<longrightarrow>
      u = \<lparr>tu_title = None, tu_description = None, tu_stateId = None, tu_priority = None,
            tu_assigneeId = Some userId\<rparr>) \<and>
   (\<forall>t w1 tr. getTicket R ident w = (Inr t, w1, tr) \<longrightarrow>
      sent (assignTicket R ident userId w) =
        tr @ [UpdateIssue (ticket_id t)
                \<lparr>tu_title = None, tu_description = None, tu_stateId = None, tu_priority = None,
                 tu_assigneeId = Some userId\<rparr>])"
proof (intro conjI allI impI)
  show "assignTicket R ident userId = assignTicket_spec R ident userId"
    by (simp add: assignTicket_def assignTicket_spec_def empty_update_def)
next
  fix i u
  assume "UpdateIssue i u \<in> set (sent (assignTicket R ident userId w))"
  then show "u = \<lparr>tu_title = None, tu_description = None, tu_stateId = None, tu_priority = None,
            tu_assigneeId = Some userId\<rparr>"
    unfolding assignTicket_def by (rule updateTicket_sends)
next
  fix t w1 tr
  assume "getTicket R ident w = (Inr t, w1, tr)"
  then show "sent (assignTicket R ident userId w) =
        tr @ [UpdateIssue (ticket_id t)
                \<lparr>tu_title = None, tu_description = None, tu_stateId = None, tu_priority = None,
                 tu_assigneeId = Some userId\<rparr>]"
    unfolding assignTicket_def by (rule updateTicket_sent)
qed

theorem assignTicket_is_updateTicket_witness:
  "sent (assignTicket fake_remote ''ENG-1'' ''u-1'' world0) =
     [GetIssue ''ENG-1'',
      UpdateIssue ''id-1''
        \<lparr>tu_title = None, tu_description = None, tu_stateId = None, tu_priority = None,
         tu_assigneeId = Some ''u-1''\<rparr>] \<and>
   outcome (linear_assign_ticket fake_remote
      \<lparr>ap_identifier = ''ENG-1'', ap_userId = ''u-1''\<rparr> world0) =
     Inr (textResponse ''Assigned **ENG-1** to Sarah'')"
proof -
  have rendered: "outcome (linear_assign_ticket fake_remote
      \<lparr>ap_identifier = ''ENG-1'', ap_userId = ''u-1''\<rparr> world0) =
     Inr (textResponse ''Assigned **ENG-1** to Sarah'')"
    by code_simp
  from assignTicket_is_updateTicket [of fake_remote "''ENG-1''" "''u-1''" world0]
    fake_getTicket_eng1
  have "sent (assignTicket fake_remote ''ENG-1'' ''u-1'' world0) =
     [GetIssue ''ENG-1''] @
     [UpdateIssue (ticket_id (mapIssue eng1))
        \<lparr>tu_title = None, tu_description = None, tu_stateId = None, tu_priority = None,
         tu_assigneeId = Some ''u-1''\<rparr>]"
    by blast
  with rendered show ?thesis by (simp add: mapIssue_def eng1_def)
qed

text \<open>
  C9, as the code has it. When the API key is absent or empty, \<open>register\<close> registers no
  operation and writes one warning to the logger when the host supplies one, and nothing
  otherwise. When the API key is present, the six operations are registered, under
  distinct names, and no warning is written.
\<close>

theorem register_api_key:
  "(\<not> truthy (apiKey (api_config api)) \<longrightarrow>
      registered (register api) = registered api \<and>
      logged (register api) =
        logged api @
        (if has_logger api then [(Warn, ''Linear plugin: apiKey not configured'')] else [])) \<and>
   (truthy (apiKey (api_config api)) \<longrightarrow>
      registered (register api) = registered api @ linear_tools \<and>
      length linear_tools = 6 \<and> distinct (map reg_name linear_tools) \<and>
      logged (register api) =
        logged api @
        (if has_logger api
         then [(Info, ''Linear plugin: initializing...''),
               (Info, ''Linear plugin: 6 tools registered'')]
         else []))"
  by (simp add: register_def logger_write_def registerLinearTools_def registerTool_def
      linear_tools_def)

theorem register_api_key_witness:
  "registered (register \<lparr>api_config = \<lparr>apiKey = None\<rparr>, has_logger = True, logged = [],
      registered = []\<rparr>) = [] \<and>
   logged (register \<lparr>api_config = \<lparr>apiKey = None\<rparr>, has_logger = True, logged = [],
      registered = []\<rparr>) = [(Warn, ''Linear plugin: apiKey not configured'')] \<and>
   registered (register \<lparr>api_config = \<lparr>apiKey = Some ''''\<rparr>, has_logger = True, logged = [],
      registered = []\<rparr>) = [] \<and>
   map reg_name (registered (register \<lparr>api_config = \<lparr>apiKey = Some ''lin_api_key''\<rparr>,
      has_logger = True, logged = [], registered = []\<rparr>)) =
     [''linear_create_ticket'', ''linear_read_ticket'', ''linear_update_ticket'',
      ''linear_assign_ticket'', ''linear_list_tickets'', ''linear_get_users'']"
proof -
  let ?none = "\<lparr>api_config = \<lparr>apiKey = None\<rparr>, has_logger = True, logged = [], registered = []\<rparr>"
  let ?empty = "\<lparr>api_config = \<lparr>apiKey = Some ''''\<rparr>, has_logger = True, logged = [],
      registered = []\<rparr>"
  let ?key = "\<lparr>api_config = \<lparr>apiKey = Some ''lin_api_key''\<rparr>, has_logger = True,
      logged = [], registered = []\<rparr>"
  have a: "\<not> truthy (apiKey (api_config ?none))" and b: "\<not> truthy (apiKey (api_config ?empty))"
    and c: "truthy (apiKey (api_config ?key))"
    by simp_all
  from register_api_key [of ?none] a
  have "registered (register ?none) = registered ?none \<and>
      logged (register ?none) = logged ?none @
        (if has_logger ?none then [(Warn, ''Linear plugin: apiKey not configured'')] else [])"
    by blast
  moreover from register_api_key [of ?empty] b
  have "registered (register ?empty) = registered ?empty" by blast
  moreover from register_api_key [of ?key] c
  have "registered (register ?key) = registered ?key @ linear_tools" by blast
  ultimately show ?thesis by (simp add: linear_tools_def)
qed

text \<open>
  C9 as stated fails: on a host that supplies no logger, the missing API key is not
  reported at all.
\<close>

theorem register_without_logger_counterexample:
  "\<not> truthy (apiKey (api_config \<lparr>api_config = \<lparr>apiKey = None\<rparr>, has_logger = False,
      logged = [], registered = []\<rparr>)) \<and>
   logged (register \<lparr>api_config = \<lparr>apiKey = None\<rparr>, has_logger = False, logged = [],
      registered = []\<rparr>) = []"
  by (simp add: register_def logger_write_def)

text \<open>
  C10. In every update mutation that update-ticket sends, a title or description supplied
  as the empty string is absent (inclusion is gated on truthiness), while the priority is
  sent whenever it is defined: priority 0 is sent as 0.
\<close>

theorem update_field_gates:
  assumes "UpdateIssue i u \<in> set (sent (linear_update_ticket toLowerCase R p w))"
  shows "(up_title p = Some [] \<longrightarrow> tu_title u = None) \<and>
         (up_description p = Some [] \<longrightarrow> tu_description u = None) \<and>
         (up_priority p = Some 0 \<longrightarrow> tu_priority u = Some 0) \<and>
         tu_title u = (if truthy (up_title p) then up_title p else None) \<and>
         tu_description u = (if truthy (up_description p) then up_description p else None) \<and>
         tu_priority u = up_priority p"
proof -
  from update_sends [OF assms] obtain sid where "u = (initial_updates p)\<lparr>tu_stateId := sid\<rparr>" ..
  then show ?thesis by (simp add: initial_updates_def)
qed

theorem update_field_gates_witness:
  "UpdateIssue ''id-1''
        \<lparr>tu_title = None, tu_description = None, tu_stateId = None,
         tu_priority = Some 0, tu_assigneeId = None\<rparr>
     \<in> set (sent (linear_update_ticket ascii_lower fake_remote
          \<lparr>up_identifier = ''ENG-1'', up_title = Some [], up_description = Some [],
           up_status = None, up_priority = Some 0\<rparr> world0)) \<and>
   issue_title (hd (fw_issues (fst (snd (linear_update_ticket ascii_lower fake_remote
          \<lparr>up_identifier = ''ENG-1'', up_title = Some [], up_description = Some [],
           up_status = None, up_priority = Some 0\<rparr> world0))))) = ''Fix login bug'' \<and>
   issue_priority (hd (fw_issues (fst (snd (linear_update_ticket ascii_lower fake_remote
          \<lparr>up_identifier = ''ENG-1'', up_title = Some [], up_description = Some [],
           up_status = None, up_priority = Some 0\<rparr> world0))))) = 0"
proof -
  let ?p = "\<lparr>up_identifier = ''ENG-1'', up_title = Some [], up_description = Some [],
           up_status = None, up_priority = Some (0::int)\<rparr>"
  let ?u = "\<lparr>tu_title = None, tu_description = None, tu_stateId = None,
         tu_priority = Some (0::int), tu_assigneeId = None\<rparr>"
  have m: "UpdateIssue ''id-1'' ?u \<in> set (sent (linear_update_ticket ascii_lower fake_remote ?p world0))"
    by (simp add: fake_update_empty_title)
  have w: "issue_title (hd (fw_issues (fst (snd (linear_update_ticket ascii_lower fake_remote ?p world0))))) =
        ''Fix login bug'' \<and>
      issue_priority (hd (fw_issues (fst (snd (linear_update_ticket ascii_lower fake_remote ?p world0))))) = 0"
    by code_simp
  from update_field_gates [OF m] m w show ?thesis by simp
qed

end
